theory Spec2Isabelle
  imports Main "HOL-Library.Word"
begin

section \<open>Essential containers: the pod controller\<close>

text \<open>
  The repository holds two variants of one controller, both in package
  \<^verbatim>\<open>controller\<close>: \<^verbatim>\<open>internal/controller/pod_controller.go\<close> deletes the pod once its
  essential container has completed, the second file injects an ephemeral container
  that signals process 1. The event filter and the three helpers \<^verbatim>\<open>getContainerStatus\<close>,
  \<^verbatim>\<open>getState\<close> and \<^verbatim>\<open>getStateReason\<close> are the same text in both files and are embedded
  once.
\<close>

subsection \<open>The Kubernetes API types the code reads and writes\<close>

text \<open>
  The types come from \<^verbatim>\<open>k8s.io/api/core/v1\<close>. A Go pointer field that may be \<^verbatim>\<open>nil\<close> is
  an \<open>option\<close>, a slice is a list, \<^verbatim>\<open>int32\<close> is a 32-bit word. Field names carry a
  short prefix of their struct, since several structs have a field \<^verbatim>\<open>Name\<close> or
  \<^verbatim>\<open>Reason\<close>. Fields of the library types that the controller neither reads nor
  writes are left out beyond a few representatives. Of the managed-fields entries of
  the object metadata, \<open>om_ManagedFields\<close> keeps the raw bytes of each \<^verbatim>\<open>FieldsV1\<close>,
  which \<^verbatim>\<open>json.Marshal\<close> copies into its output and rejects when they are not JSON.
\<close>

type_synonym Time = int

record ContainerStateWaiting =
  w_Reason :: string
  w_Message :: string

record ContainerStateRunning =
  r_StartedAt :: Time

record ContainerStateTerminated =
  t_ExitCode :: "32 word"
  t_Signal :: "32 word"
  t_Reason :: string
  t_Message :: string
  t_StartedAt :: Time
  t_FinishedAt :: Time
  t_ContainerID :: string

text \<open>
  \<^verbatim>\<open>ContainerState\<close> is a struct of three pointers. The API server fills at most one of
  them, but the Go type allows any combination, and the helpers below are defined on
  all of them.
\<close>

record ContainerState =
  Waiting :: "ContainerStateWaiting option"
  Running :: "ContainerStateRunning option"
  Terminated :: "ContainerStateTerminated option"

record ContainerStatus =
  cs_Name :: string
  cs_State :: ContainerState
  cs_LastTerminationState :: ContainerState
  cs_Ready :: bool
  cs_RestartCount :: "32 word"
  cs_Image :: string

record Container =
  c_Name :: string
  c_Image :: string
  c_Command :: "string list"
  c_Args :: "string list"

record Capabilities =
  cap_Add :: "string list"
  cap_Drop :: "string list"

record SecurityContext =
  sc_Capabilities :: "Capabilities option"
  sc_Privileged :: "bool option"

record ResourceRequirements =
  rr_Limits :: "(string \<times> string) list"
  rr_Requests :: "(string \<times> string) list"

record EphemeralContainerCommon =
  ec_Name :: string
  ec_Image :: string
  ec_Command :: "string list"
  ec_Args :: "string list"
  ec_TTY :: bool
  ec_Stdin :: bool
  ec_Resources :: ResourceRequirements
  ec_SecurityContext :: "SecurityContext option"

record EphemeralContainer =
  EphemeralContainerCommon :: EphemeralContainerCommon
  TargetContainerName :: string

record ObjectMeta =
  om_Name :: string
  om_Namespace :: string
  om_Labels :: "(string \<times> string) list"
  om_ManagedFields :: "string list"

record PodSpec =
  Containers :: "Container list"
  EphemeralContainers :: "EphemeralContainer list"

record PodStatus =
  ps_Phase :: string
  ContainerStatuses :: "ContainerStatus list"

record Pod =
  ObjectMeta :: ObjectMeta
  Spec :: PodSpec
  Status :: PodStatus

text \<open>The zero value \<^verbatim>\<open>corev1.ContainerState{}\<close>: all three pointers are \<^verbatim>\<open>nil\<close>.\<close>

definition ContainerState_zero :: ContainerState where
  "ContainerState_zero = \<lparr>Waiting = None, Running = None, Terminated = None\<rparr>"

subsection \<open>The container-state helpers\<close>

text \<open>
  \<^verbatim>\<open>getContainerStatus\<close> ranges over \<^verbatim>\<open>pod.Status.ContainerStatuses\<close> and returns the
  state of the first record whose name equals the argument; after the loop it returns
  the zero state. The loop is the recursion of \<open>getContainerStatus_loop\<close> over the
  slice.
\<close>

fun getContainerStatus_loop :: "ContainerStatus list \<Rightarrow> string \<Rightarrow> ContainerState" where
  "getContainerStatus_loop [] containerName = ContainerState_zero"
| "getContainerStatus_loop (status # rest) containerName =
     (if cs_Name status = containerName then cs_State status
      else getContainerStatus_loop rest containerName)"

definition getContainerStatus :: "Pod \<Rightarrow> string \<Rightarrow> ContainerState" where
  "getContainerStatus pod containerName =
     getContainerStatus_loop (ContainerStatuses (Status pod)) containerName"

definition getState :: "ContainerState \<Rightarrow> string" where
  "getState state =
     (if Running state \<noteq> None then ''Running''
      else if Waiting state \<noteq> None then ''Waiting''
      else if Terminated state \<noteq> None then ''Terminated''
      else ''unknown'')"

definition getStateReason :: "ContainerState \<Rightarrow> string" where
  "getStateReason state =
     (if Running state \<noteq> None then ''''
      else case Waiting state of
        Some w \<Rightarrow> w_Reason w
      | None \<Rightarrow> (case Terminated state of
          Some t \<Rightarrow> t_Reason t
        | None \<Rightarrow> ''''))"

subsection \<open>The event filter\<close>

text \<open>
  An event carries objects of the interface type \<^verbatim>\<open>client.Object\<close>. \<^verbatim>\<open>UpdateFunc\<close>
  asserts both to \<^verbatim>\<open>*corev1.Pod\<close> with the one-result form of the type assertion, which
  panics on any other dynamic type.
\<close>

datatype Object = PodObject Pod | OtherObject

record UpdateEvent =
  ObjectOld :: Object
  ObjectNew :: Object

datatype panic = TypeAssertionPanic | NilPointerDereference

definition UpdateFunc :: "UpdateEvent \<Rightarrow> panic + bool" where
  "UpdateFunc e =
     (case ObjectOld e of
        OtherObject \<Rightarrow> Inl TypeAssertionPanic
      | PodObject oldPod \<Rightarrow>
     (case ObjectNew e of
        OtherObject \<Rightarrow> Inl TypeAssertionPanic
      | PodObject newPod \<Rightarrow>
     (let oldStatus = getState (getContainerStatus oldPod ''main'');
          newState = getContainerStatus newPod ''main'';
          newStatus = getState newState;
          statusReason = getStateReason newState
      in Inr ((oldStatus = ''Running'' \<and> newStatus = ''Terminated'')
              \<and> statusReason = ''Completed''))))"

definition CreateFunc :: "Object \<Rightarrow> bool" where
  "CreateFunc ce = False"

definition DeleteFunc :: "Object \<Rightarrow> bool" where
  "DeleteFunc de = False"

subsection \<open>Errors, logging and the platform\<close>

text \<open>
  A Go \<^verbatim>\<open>error\<close> is an interface with the method \<^verbatim>\<open>Error()\<close>; \<^verbatim>\<open>nil\<close> is \<open>None\<close> of
  \<open>error option\<close>. The code meets errors of two origins: those handed back by a
  library or by the API server, and those it builds itself with \<^verbatim>\<open>fmt.Errorf\<close>.
\<close>

datatype error = ExternalError string | Errorf string

fun Error :: "error \<Rightarrow> string" where
  "Error (ExternalError m) = m"
| "Error (Errorf m) = m"

text \<open>
  What the controller prints: \<^verbatim>\<open>fmt.Printf\<close> to standard output, \<^verbatim>\<open>log.Info\<close> and
  \<^verbatim>\<open>log.Error\<close> to the logger (the key \<^verbatim>\<open>pod\<close> attached by \<^verbatim>\<open>WithValues\<close> is left out).
\<close>

datatype log_line = Printf string | Info string | LogError error string

record NamespacedName =
  req_Namespace :: string
  req_Name :: string

text \<open>\<^verbatim>\<open>ctrl.Result\<close>; both variants only ever return its zero value.\<close>

record Result =
  Requeue :: bool
  RequeueAfter :: int

definition Result_zero :: Result where
  "Result_zero = \<lparr>Requeue = False, RequeueAfter = 0\<rparr>"

text \<open>
  The functions of other packages are parameters of the model. \<open>Lib\<close> holds the pure
  ones: \<^verbatim>\<open>errors.IsNotFound\<close>, \<^verbatim>\<open>json.Marshal\<close> and
  \<^verbatim>\<open>strategicpatch.CreateTwoWayMergePatch\<close>, the last two with Go's pair of results
  (the bytes and the error). \<open>Client\<close> holds the answers of the API server to the
  calls of one reconciliation: \<^verbatim>\<open>r.Get\<close>, \<^verbatim>\<open>r.Delete\<close>, and \<^verbatim>\<open>Patch\<close> on the
  sub-resource \<^verbatim>\<open>ephemeralcontainers\<close> with a strategic-merge patch. \<^verbatim>\<open>r.Get\<close> answers
  with the pod it writes into the object given, or with an error. The code reads
  nothing of an object after it has handed it to \<^verbatim>\<open>r.Delete\<close> or to a successful
  \<^verbatim>\<open>Patch\<close>, so what these calls leave in it is not part of their answer.
\<close>

record Lib =
  IsNotFound :: "error \<Rightarrow> bool"
  Marshal :: "Pod \<Rightarrow> string \<times> error option"
  CreateTwoWayMergePatch :: "string \<Rightarrow> string \<Rightarrow> Pod \<Rightarrow> string \<times> error option"

record Client =
  Get :: "NamespacedName \<Rightarrow> error + Pod"
  Delete :: "Pod \<Rightarrow> error option"
  PatchEphemeralContainers :: "Pod \<Rightarrow> string \<Rightarrow> error option"

subsection \<open>Reconcile, the variant that deletes the pod\<close>

text \<open>\<^verbatim>\<open>Reconcile\<close> of \<^verbatim>\<open>internal/controller/pod_controller.go\<close>.\<close>

definition Reconcile_delete ::
  "Lib \<Rightarrow> Client \<Rightarrow> NamespacedName \<Rightarrow> log_line list \<times> Result \<times> error option" where
  "Reconcile_delete lib r req =
     (let out = [Printf ([CHR 0x0A] @ ''Essential container exited, deleting the pod ''
                   @ req_Name req @ '' in namespace '' @ req_Namespace req @ [CHR 0x0A])]
      in case Get r req of
        Inl err \<Rightarrow>
          if IsNotFound lib err
          then (out @ [Info ''Pod not found''], Result_zero, None)
          else (out @ [LogError err ''Failed to get Pod''], Result_zero, Some err)
      | Inr pod \<Rightarrow>
          (case Delete r pod of
             Some err \<Rightarrow> (out @ [LogError err ''Failed to delete Pod''], Result_zero, Some err)
           | None \<Rightarrow> (out @ [Info ''Pod deleted successfully''], Result_zero, None)))"

subsection \<open>Reconcile, the variant that injects the kill container\<close>

text \<open>The literal \<^verbatim>\<open>ec\<close> at the head of \<^verbatim>\<open>injectEphemeralContainer\<close>.\<close>

definition ec :: EphemeralContainer where
  "ec = \<lparr>EphemeralContainerCommon =
            \<lparr>ec_Name = ''essential-container-sidecar'',
             ec_Image = ''busybox'',
             ec_Command = [''/bin/sh''],
             ec_Args = [''-c'', ''kill -INT 1''],
             ec_TTY = False,
             ec_Stdin = False,
             ec_Resources = \<lparr>rr_Limits = [], rr_Requests = []\<rparr>,
             ec_SecurityContext =
               Some \<lparr>sc_Capabilities = Some \<lparr>cap_Add = [''SYS_PTRACE''], cap_Drop = []\<rparr>,
                     sc_Privileged = None\<rparr>\<rparr>,
          TargetContainerName = []\<rparr>"

text \<open>
  \<^verbatim>\<open>injectEphemeralContainer\<close> works on two pod objects, the one it is given and the
  one \<^verbatim>\<open>DeepCopy\<close> allocates, and assigns to a field of the second. The objects live
  in a store, a list of pods; a \<^verbatim>\<open>*corev1.Pod\<close> is an index into it, and an index
  beyond the end is the \<^verbatim>\<open>nil\<close> pointer. \<^verbatim>\<open>DeepCopy\<close> allocates a new object holding a
  copy of every field, slices included; on \<^verbatim>\<open>nil\<close> it returns \<^verbatim>\<open>nil\<close>.
\<close>

type_synonym store = "Pod list"

definition DeepCopy :: "store \<Rightarrow> nat \<Rightarrow> nat \<times> store" where
  "DeepCopy h p = (if p < length h then (length h, h @ [h ! p]) else (p, h))"

text \<open>
  The two statements
  \<^verbatim>\<open>copied := pod.DeepCopy()\<close> and
  \<^verbatim>\<open>copied.Spec.EphemeralContainers = append(copied.Spec.EphemeralContainers, *ec)\<close>:
  the pointer \<^verbatim>\<open>copied\<close> and the store after the assignment. When \<^verbatim>\<open>copied\<close> is
  \<^verbatim>\<open>nil\<close>, reading \<^verbatim>\<open>copied.Spec\<close> panics.
\<close>

definition copied_append :: "store \<Rightarrow> nat \<Rightarrow> panic + (nat \<times> store)" where
  "copied_append h pod =
     (let (copied, h1) = DeepCopy h pod
      in if \<not> copied < length h1 then Inl NilPointerDereference
         else
           let c = h1 ! copied
           in Inr (copied,
                   h1[copied := c\<lparr>Spec := (Spec c)\<lparr>EphemeralContainers :=
                                      EphemeralContainers (Spec c) @ [ec]\<rparr>\<rparr>]))"

text \<open>
  The value the two statements leave in the object \<^verbatim>\<open>copied\<close>, as a function of the
  value of the pod (\<open>copied_append_value\<close> below proves that it is).
\<close>

definition with_kill_container :: "Pod \<Rightarrow> Pod" where
  "with_kill_container p =
     p\<lparr>Spec := (Spec p)\<lparr>EphemeralContainers := EphemeralContainers (Spec p) @ [ec]\<rparr>\<rparr>"

text \<open>
  \<^verbatim>\<open>injectEphemeralContainer\<close>. The error of the first \<^verbatim>\<open>json.Marshal\<close> is assigned to
  the blank identifier; the second one is tested. With a \<^verbatim>\<open>nil\<close> pod the function
  panics at \<^verbatim>\<open>copied.Spec\<close>, before any call to the platform, and what the first
  \<^verbatim>\<open>json.Marshal\<close> returned for it is never used. The result is what was logged and
  the error returned.
\<close>

definition injectEphemeralContainer ::
  "Lib \<Rightarrow> Client \<Rightarrow> store \<Rightarrow> nat \<Rightarrow> panic + (log_line list \<times> error option)" where
  "injectEphemeralContainer lib r h pod =
     (let (podJS, _) = Marshal lib (h ! pod)
      in case copied_append h pod of
        Inl pn \<Rightarrow> Inl pn
      | Inr (copied, h') \<Rightarrow>
        let (debugJS, err) = Marshal lib (h' ! copied)
        in Inr
          (case err of
             Some e \<Rightarrow>
               ([], Some (Errorf (''error creating JSON for debug container: '' @ Error e)))
           | None \<Rightarrow>
               (case CreateTwoWayMergePatch lib podJS debugJS (h' ! pod) of
                  (patch, Some e) \<Rightarrow>
                    ([], Some (Errorf (''error creating patch to add debug container: ''
                                        @ Error e)))
                | (patch, None) \<Rightarrow>
                    (case PatchEphemeralContainers r (h' ! pod) patch of
                       Some e \<Rightarrow>
                         if IsNotFound lib e
                         then ([], Some (Errorf (''pod not found: ''
                                  @ om_Namespace (ObjectMeta (h' ! pod)) @ ''/''
                                  @ om_Name (ObjectMeta (h' ! pod)))))
                         else ([], Some e)
                     | None \<Rightarrow>
                         ([Info ''Ephemeral container injected successfully''], None)))))"

text \<open>
  \<^verbatim>\<open>Reconcile\<close> of the second file. \<^verbatim>\<open>pod := &corev1.Pod{}\<close> allocates the object that
  \<^verbatim>\<open>r.Get\<close> fills: the store of this call holds it at index 0.
\<close>

definition Reconcile_inject ::
  "Lib \<Rightarrow> Client \<Rightarrow> NamespacedName
     \<Rightarrow> panic + (log_line list \<times> Result \<times> error option)" where
  "Reconcile_inject lib r req =
     (let out = [Printf ([CHR 0x0A]
                   @ ''Essential container exited, injecting process kill container in the pod ''
                   @ req_Name req @ '' in namespace '' @ req_Namespace req @ [CHR 0x0A])]
      in case Get r req of
        Inl err \<Rightarrow>
          if IsNotFound lib err
          then Inr (out @ [Info ''Pod not found''], Result_zero, None)
          else Inr (out @ [LogError err ''Failed to get Pod''], Result_zero, Some err)
      | Inr p \<Rightarrow>
          (case injectEphemeralContainer lib r [p] 0 of
             Inl pn \<Rightarrow> Inl pn
           | Inr (lg, Some err) \<Rightarrow>
               Inr (out @ lg @ [LogError err ''Failed to inject ephemeral container into pod''],
                    Result_zero, Some err)
           | Inr (lg, None) \<Rightarrow>
               Inr (out @ lg @ [Info ''Pod killed successfully''], Result_zero, None)))"

subsection \<open>Pods that differ in exit codes only\<close>

text \<open>
  To say that two pods agree on everything but the exit codes of their container
  statuses, \<open>erase_ExitCodes\<close> overwrites every \<^verbatim>\<open>ExitCode\<close> of the status list
  (in \<^verbatim>\<open>State\<close> and in \<^verbatim>\<open>LastTerminationState\<close>) with 0: two pods agree up to exit
  codes when their erasures are equal.
\<close>

definition erase_ExitCode :: "ContainerState \<Rightarrow> ContainerState" where
  "erase_ExitCode s = s\<lparr>Terminated := map_option (\<lambda>t. t\<lparr>t_ExitCode := 0\<rparr>) (Terminated s)\<rparr>"

definition erase_ExitCode_status :: "ContainerStatus \<Rightarrow> ContainerStatus" where
  "erase_ExitCode_status st =
     st\<lparr>cs_State := erase_ExitCode (cs_State st),
        cs_LastTerminationState := erase_ExitCode (cs_LastTerminationState st)\<rparr>"

definition erase_ExitCodes :: "Pod \<Rightarrow> Pod" where
  "erase_ExitCodes pod =
     pod\<lparr>Status := (Status pod)\<lparr>ContainerStatuses :=
            map erase_ExitCode_status (ContainerStatuses (Status pod))\<rparr>\<rparr>"

subsection \<open>Sample inputs\<close>

text \<open>
  The pod \<^verbatim>\<open>ns/app-1\<close> of the specification's scenarios, with the containers
  \<^verbatim>\<open>main\<close> and \<^verbatim>\<open>pool\<close>, given its list of container statuses.
\<close>

definition running_state :: ContainerState where
  "running_state = \<lparr>Waiting = None, Running = Some \<lparr>r_StartedAt = 100\<rparr>, Terminated = None\<rparr>"

definition waiting_state :: "string \<Rightarrow> ContainerState" where
  "waiting_state reason =
     \<lparr>Waiting = Some \<lparr>w_Reason = reason, w_Message = []\<rparr>, Running = None, Terminated = None\<rparr>"

definition terminated_state :: "string \<Rightarrow> 32 word \<Rightarrow> ContainerState" where
  "terminated_state reason code =
     \<lparr>Waiting = None, Running = None,
      Terminated = Some \<lparr>t_ExitCode = code, t_Signal = 0, t_Reason = reason, t_Message = [],
                         t_StartedAt = 100, t_FinishedAt = 160,
                         t_ContainerID = ''containerd://0a1b''\<rparr>\<rparr>"

definition status_of :: "string \<Rightarrow> ContainerState \<Rightarrow> ContainerStatus" where
  "status_of n s =
     \<lparr>cs_Name = n, cs_State = s, cs_LastTerminationState = ContainerState_zero,
      cs_Ready = False, cs_RestartCount = 0, cs_Image = ''busybox''\<rparr>"

definition app_1 :: "ContainerStatus list \<Rightarrow> Pod" where
  "app_1 sts =
     \<lparr>ObjectMeta = \<lparr>om_Name = ''app-1'', om_Namespace = ''ns'',
                    om_Labels = [(''essential-containers'', ''main'')],
                    om_ManagedFields = []\<rparr>,
      Spec = \<lparr>Containers =
                [\<lparr>c_Name = ''main'', c_Image = ''app'', c_Command = [''/app''], c_Args = []\<rparr>,
                 \<lparr>c_Name = ''pool'', c_Image = ''pgbouncer'', c_Command = [], c_Args = []\<rparr>],
              EphemeralContainers = []\<rparr>,
      Status = \<lparr>ps_Phase = ''Running'', ContainerStatuses = sts\<rparr>\<rparr>"

text \<open>The pod once \<^verbatim>\<open>main\<close> has completed and \<^verbatim>\<open>pool\<close> is still running.\<close>

definition main_completed :: Pod where
  "main_completed =
     app_1 [status_of ''main'' (terminated_state ''Completed'' 0),
            status_of ''pool'' running_state]"

definition app_1_req :: NamespacedName where
  "app_1_req = \<lparr>req_Namespace = ''ns'', req_Name = ''app-1''\<rparr>"

text \<open>
  A not-found answer of the API server, and a sample of the three library functions:
  \<open>sample_IsNotFound\<close> holds of the errors whose message ends in \<^verbatim>\<open>not found\<close>, and the
  two byte strings are stand-ins for the JSON text and for the patch.
\<close>

definition not_found_error :: error where
  "not_found_error =
     ExternalError (''pods '' @ [CHR 0x22] @ ''app-1'' @ [CHR 0x22] @ '' not found'')"

definition sample_IsNotFound :: "error \<Rightarrow> bool" where
  "sample_IsNotFound e = (drop (length (Error e) - 9) (Error e) = ''not found'')"

definition sample_Marshal :: "Pod \<Rightarrow> string \<times> error option" where
  "sample_Marshal p =
     (om_Namespace (ObjectMeta p) @ ''/'' @ om_Name (ObjectMeta p) @ '':''
        @ concat (map (\<lambda>c. '' '' @ ec_Name (EphemeralContainerCommon c))
                      (EphemeralContainers (Spec p))),
      None)"

definition sample_lib :: Lib where
  "sample_lib =
     \<lparr>IsNotFound = sample_IsNotFound,
      Marshal = sample_Marshal,
      CreateTwoWayMergePatch = (\<lambda>original modified dataStruct. (drop (length original) modified, None))\<rparr>"

text \<open>
  A pod that \<^verbatim>\<open>json.Marshal\<close> cannot serialize: one of its managed-fields entries holds
  the text \<^verbatim>\<open>{\<close>, which is not JSON. The sample \<open>strict_Marshal\<close> fails on every pod with
  such an entry, so on the pod and on each of its copies alike, and is \<open>sample_Marshal\<close>
  on the others.
\<close>

definition marshal_error :: error where
  "marshal_error =
     ExternalError ''json: error calling MarshalJSON for type *v1.FieldsV1: unexpected end of JSON input''"

definition strict_Marshal :: "Pod \<Rightarrow> string \<times> error option" where
  "strict_Marshal p =
     (if ''{'' \<in> set (om_ManagedFields (ObjectMeta p)) then ([], Some marshal_error)
      else sample_Marshal p)"

definition strict_lib :: Lib where
  "strict_lib = sample_lib\<lparr>Marshal := strict_Marshal\<rparr>"

definition app_1_malformed :: Pod where
  "app_1_malformed =
     main_completed\<lparr>ObjectMeta := (ObjectMeta main_completed)\<lparr>om_ManagedFields := [''{'']\<rparr>\<rparr>"

text \<open>
  The pod \<^verbatim>\<open>app-1\<close> after somebody has attached a debugging container to it: its list of
  ephemeral containers has one entry.
\<close>

definition debugger :: EphemeralContainer where
  "debugger =
     \<lparr>EphemeralContainerCommon =
        \<lparr>ec_Name = ''debugger'', ec_Image = ''busybox'', ec_Command = [''sh''], ec_Args = [],
         ec_TTY = True, ec_Stdin = True,
         ec_Resources = \<lparr>rr_Limits = [], rr_Requests = []\<rparr>,
         ec_SecurityContext = None\<rparr>,
      TargetContainerName = ''main''\<rparr>"

definition app_1_debugged :: Pod where
  "app_1_debugged =
     main_completed\<lparr>Spec := (Spec main_completed)\<lparr>EphemeralContainers := [debugger]\<rparr>\<rparr>"

text \<open>
  Five API servers: one that knows no pod; one that serves \<^verbatim>\<open>app-1\<close> and accepts
  every write; one on which the pod is gone by the time of the delete; one on which
  it is gone by the time of the patch; one that serves the pod that cannot be
  serialized.
\<close>

definition client_absent :: Client where
  "client_absent =
     \<lparr>Get = (\<lambda>key. Inl not_found_error),
      Delete = (\<lambda>obj. Some not_found_error),
      PatchEphemeralContainers = (\<lambda>obj patch. Some not_found_error)\<rparr>"

definition client_ok :: Client where
  "client_ok =
     \<lparr>Get = (\<lambda>key. Inr main_completed),
      Delete = (\<lambda>obj. None),
      PatchEphemeralContainers = (\<lambda>obj patch. None)\<rparr>"

definition client_delete_gone :: Client where
  "client_delete_gone = client_ok\<lparr>Delete := (\<lambda>obj. Some not_found_error)\<rparr>"

definition client_patch_gone :: Client where
  "client_patch_gone =
     client_ok\<lparr>PatchEphemeralContainers := (\<lambda>obj patch. Some not_found_error)\<rparr>"

definition client_malformed :: Client where
  "client_malformed = client_ok\<lparr>Get := (\<lambda>key. Inr app_1_malformed)\<rparr>"

section \<open>Properties of the container-state helpers and of the event filter\<close>

lemmas sample_defs = main_completed_def app_1_def status_of_def running_state_def
  terminated_state_def waiting_state_def ContainerState_zero_def

lemma getState_Running_iff: "getState s = ''Running'' \<longleftrightarrow> Running s \<noteq> None"
  by (simp add: getState_def)

lemma getState_Terminated_iff:
  "getState s = ''Terminated'' \<longleftrightarrow> Running s = None \<and> Waiting s = None \<and> Terminated s \<noteq> None"
  by (simp add: getState_def)

lemma getState_unknown_iff:
  "getState s = ''unknown'' \<longleftrightarrow> Running s = None \<and> Waiting s = None \<and> Terminated s = None"
  by (simp add: getState_def)

lemma getState_zero: "getState ContainerState_zero = ''unknown''"
  by (simp add: getState_def ContainerState_zero_def)

lemma getContainerStatus_loop_no_match:
  "\<forall>s \<in> set sts. cs_Name s \<noteq> n \<Longrightarrow> getContainerStatus_loop sts n = ContainerState_zero"
  by (induction sts) simp_all

lemma getContainerStatus_loop_first:
  "\<forall>x \<in> set pre. cs_Name x \<noteq> n \<Longrightarrow> cs_Name s = n
     \<Longrightarrow> getContainerStatus_loop (pre @ s # post) n = cs_State s"
  by (induction pre) simp_all

lemma getContainerStatus_loop_find:
  "getContainerStatus_loop sts n =
     (case find (\<lambda>s. cs_Name s = n) sts of
        None \<Rightarrow> ContainerState_zero
      | Some s \<Rightarrow> cs_State s)"
  by (induction sts) simp_all

text \<open>
  C1. For every pair of an old and a new pod, the event filter \<^verbatim>\<open>UpdateFunc\<close> returns
  true exactly when the essential container is running in the old pod, is terminated
  in the new pod, and the termination reason in the new pod is the string
  \<^verbatim>\<open>Completed\<close>; in every other case it returns false. The statement is on the fields
  of the pods. The status of the essential container is the first status record
  named \<^verbatim>\<open>main\<close>, the constant of the code. It is running when that record's state has
  \<^verbatim>\<open>Running\<close> set; it is terminated when the state has \<^verbatim>\<open>Terminated\<close> set and neither
  \<^verbatim>\<open>Running\<close> nor \<^verbatim>\<open>Waiting\<close>. A pod without such a record is in neither phase.
\<close>

theorem UpdateFunc_completion:
  "UpdateFunc \<lparr>ObjectOld = PodObject old, ObjectNew = PodObject new\<rparr> =
     Inr ((\<exists>so r. find (\<lambda>s. cs_Name s = ''main'') (ContainerStatuses (Status old)) = Some so
                 \<and> Running (cs_State so) = Some r)
          \<and> (\<exists>sn t. find (\<lambda>s. cs_Name s = ''main'') (ContainerStatuses (Status new)) = Some sn
                 \<and> Running (cs_State sn) = None
                 \<and> Waiting (cs_State sn) = None
                 \<and> Terminated (cs_State sn) = Some t
                 \<and> t_Reason t = ''Completed''))"
  by (auto simp: UpdateFunc_def Let_def getContainerStatus_def getContainerStatus_loop_find
      getState_def getStateReason_def ContainerState_zero_def split: option.splits)

text \<open>
  The filter at work on \<^verbatim>\<open>ns/app-1\<close>: from running to completed (true), from running to a
  crash with reason \<^verbatim>\<open>Error\<close> or \<^verbatim>\<open>OOMKilled\<close>, from waiting to completed, the completed
  pod delivered again as old and new, from running to still running, and a new pod
  that has lost its record of \<^verbatim>\<open>main\<close> (all false).
\<close>

theorem UpdateFunc_completion_witness:
  "UpdateFunc \<lparr>ObjectOld = PodObject (app_1 [status_of ''main'' running_state,
                                              status_of ''pool'' running_state]),
               ObjectNew = PodObject main_completed\<rparr> = Inr True
   \<and> UpdateFunc \<lparr>ObjectOld = PodObject (app_1 [status_of ''main'' running_state,
                                              status_of ''pool'' running_state]),
               ObjectNew = PodObject (app_1 [status_of ''main'' (terminated_state ''Error'' 1),
                                              status_of ''pool'' running_state])\<rparr> = Inr False
   \<and> UpdateFunc \<lparr>ObjectOld = PodObject (app_1 [status_of ''main'' running_state,
                                              status_of ''pool'' running_state]),
               ObjectNew = PodObject (app_1 [status_of ''main''
                                               (terminated_state ''OOMKilled'' 137),
                                              status_of ''pool'' running_state])\<rparr> = Inr False
   \<and> UpdateFunc \<lparr>ObjectOld = PodObject (app_1 [status_of ''main''
                                               (waiting_state ''ContainerCreating''),
                                              status_of ''pool'' running_state]),
               ObjectNew = PodObject main_completed\<rparr> = Inr False
   \<and> UpdateFunc \<lparr>ObjectOld = PodObject main_completed,
               ObjectNew = PodObject main_completed\<rparr> = Inr False
   \<and> UpdateFunc \<lparr>ObjectOld = PodObject (app_1 [status_of ''main'' running_state,
                                              status_of ''pool'' running_state]),
               ObjectNew = PodObject (app_1 [status_of ''main'' running_state,
                                              status_of ''pool'' running_state])\<rparr> = Inr False
   \<and> UpdateFunc \<lparr>ObjectOld = PodObject (app_1 [status_of ''main'' running_state,
                                              status_of ''pool'' running_state]),
               ObjectNew = PodObject (app_1 [status_of ''pool'' running_state])\<rparr> = Inr False"
  using
    UpdateFunc_completion [of "app_1 [status_of ''main'' running_state,
                                      status_of ''pool'' running_state]" main_completed]
    UpdateFunc_completion [of "app_1 [status_of ''main'' running_state,
                                      status_of ''pool'' running_state]"
       "app_1 [status_of ''main'' (terminated_state ''Error'' 1),
               status_of ''pool'' running_state]"]
    UpdateFunc_completion [of "app_1 [status_of ''main'' running_state,
                                      status_of ''pool'' running_state]"
       "app_1 [status_of ''main'' (terminated_state ''OOMKilled'' 137),
               status_of ''pool'' running_state]"]
    UpdateFunc_completion [of "app_1 [status_of ''main'' (waiting_state ''ContainerCreating''),
                                      status_of ''pool'' running_state]" main_completed]
    UpdateFunc_completion [of main_completed main_completed]
    UpdateFunc_completion [of "app_1 [status_of ''main'' running_state,
                                      status_of ''pool'' running_state]"
       "app_1 [status_of ''main'' running_state, status_of ''pool'' running_state]"]
    UpdateFunc_completion [of "app_1 [status_of ''main'' running_state,
                                      status_of ''pool'' running_state]"
       "app_1 [status_of ''pool'' running_state]"]
  by (simp add: sample_defs)

text \<open>
  The same decision with the first matching record written as the result of
  \<^verbatim>\<open>getContainerStatus\<close>.
\<close>

lemma UpdateFunc_fields:
  "UpdateFunc \<lparr>ObjectOld = PodObject old, ObjectNew = PodObject new\<rparr> =
     Inr (Running (getContainerStatus old ''main'') \<noteq> None
          \<and> Running (getContainerStatus new ''main'') = None
          \<and> Waiting (getContainerStatus new ''main'') = None
          \<and> (\<exists>t. Terminated (getContainerStatus new ''main'') = Some t
                 \<and> t_Reason t = ''Completed''))"
  by (auto simp: UpdateFunc_def Let_def getState_Running_iff getState_Terminated_iff
      getStateReason_def split: option.splits)

lemma UpdateFunc_redelivery:
  "UpdateFunc \<lparr>ObjectOld = PodObject main_completed, ObjectNew = PodObject main_completed\<rparr>
     = Inr False"
  by (simp add: UpdateFunc_def Let_def sample_defs getContainerStatus_def getState_def)

lemma UpdateFunc_from_Waiting:
  "UpdateFunc \<lparr>ObjectOld = PodObject (app_1 [status_of ''main''
                                         (waiting_state ''ContainerCreating'')]),
               ObjectNew = PodObject main_completed\<rparr> = Inr False"
  by (simp add: UpdateFunc_def Let_def sample_defs getContainerStatus_def getState_def)

lemma UpdateFunc_other_object:
  "UpdateFunc \<lparr>ObjectOld = OtherObject, ObjectNew = n\<rparr> = Inl TypeAssertionPanic"
  "UpdateFunc \<lparr>ObjectOld = PodObject old, ObjectNew = OtherObject\<rparr> = Inl TypeAssertionPanic"
  by (simp_all add: UpdateFunc_def)

text \<open>
  C6. When no status record of the old pod is named \<^verbatim>\<open>main\<close>, the event filter returns
  false, whatever the new pod holds (no record for \<^verbatim>\<open>main\<close>, or one that is already
  terminated with reason \<^verbatim>\<open>Completed\<close>).
\<close>

theorem UpdateFunc_absent_in_old:
  assumes "\<forall>s \<in> set (ContainerStatuses (Status old)). cs_Name s \<noteq> ''main''"
  shows "UpdateFunc \<lparr>ObjectOld = PodObject old, ObjectNew = PodObject new\<rparr> = Inr False"
proof -
  have "getContainerStatus old ''main'' = ContainerState_zero"
    unfolding getContainerStatus_def using assms by (rule getContainerStatus_loop_no_match)
  then have "getState (getContainerStatus old ''main'') = ''unknown''"
    by (simp add: getState_zero)
  then show ?thesis
    by (simp add: UpdateFunc_def Let_def)
qed

theorem UpdateFunc_absent_in_old_witness:
  "map cs_Name (ContainerStatuses (Status (app_1 [status_of ''pool'' running_state])))
     = [''pool'']
   \<and> UpdateFunc \<lparr>ObjectOld = PodObject (app_1 [status_of ''pool'' running_state]),
                 ObjectNew = PodObject main_completed\<rparr> = Inr False
   \<and> UpdateFunc \<lparr>ObjectOld = PodObject (app_1 [status_of ''pool'' running_state]),
                 ObjectNew = PodObject (app_1 [status_of ''pool'' running_state])\<rparr> = Inr False"
proof -
  have h: "\<forall>s \<in> set (ContainerStatuses (Status (app_1 [status_of ''pool'' running_state]))).
      cs_Name s \<noteq> ''main''"
    by (simp add: app_1_def status_of_def)
  have n: "map cs_Name (ContainerStatuses (Status (app_1 [status_of ''pool'' running_state])))
     = [''pool'']"
    by (simp add: app_1_def status_of_def)
  show ?thesis
    using n UpdateFunc_absent_in_old [OF h, of main_completed]
      UpdateFunc_absent_in_old [OF h, of "app_1 [status_of ''pool'' running_state]"]
    by simp
qed

text \<open>
  C7. \<^verbatim>\<open>getContainerStatus\<close> is a total function that returns a state and nothing else
  (no error value, no state passed or returned). When no status record of the pod has
  the given name, compared as strings, with an empty status list as a special case, it
  returns the zero state: none of \<^verbatim>\<open>Running\<close>, \<^verbatim>\<open>Waiting\<close>, \<^verbatim>\<open>Terminated\<close> is set, and
  \<^verbatim>\<open>getState\<close> calls it \<^verbatim>\<open>unknown\<close>.
\<close>

theorem getContainerStatus_no_match:
  assumes "\<forall>s \<in> set (ContainerStatuses (Status pod)). cs_Name s \<noteq> containerName"
  shows "getContainerStatus pod containerName = ContainerState_zero
         \<and> Running (getContainerStatus pod containerName) = None
         \<and> Waiting (getContainerStatus pod containerName) = None
         \<and> Terminated (getContainerStatus pod containerName) = None
         \<and> getState (getContainerStatus pod containerName) = ''unknown''
         \<and> getStateReason (getContainerStatus pod containerName) = ''''"
proof -
  have "getContainerStatus pod containerName = ContainerState_zero"
    unfolding getContainerStatus_def using assms by (rule getContainerStatus_loop_no_match)
  then show ?thesis
    by (simp add: getState_def getStateReason_def ContainerState_zero_def)
qed

theorem getContainerStatus_no_match_witness:
  "ContainerStatuses (Status (app_1 [])) = []
   \<and> getContainerStatus (app_1 []) ''main'' = ContainerState_zero
   \<and> map cs_Name (ContainerStatuses (Status main_completed)) = [''main'', ''pool'']
   \<and> getState (getContainerStatus main_completed ''Main'') = ''unknown''"
proof -
  have h0: "\<forall>s \<in> set (ContainerStatuses (Status (app_1 []))). cs_Name s \<noteq> ''main''"
    by (simp add: app_1_def)
  have h1: "\<forall>s \<in> set (ContainerStatuses (Status main_completed)). cs_Name s \<noteq> ''Main''"
    by (simp add: main_completed_def app_1_def status_of_def)
  have n: "ContainerStatuses (Status (app_1 [])) = []"
    "map cs_Name (ContainerStatuses (Status main_completed)) = [''main'', ''pool'']"
    by (simp_all add: main_completed_def app_1_def status_of_def)
  show ?thesis
    using n getContainerStatus_no_match [OF h0] getContainerStatus_no_match [OF h1]
    by (simp add: getState_zero)
qed

text \<open>
  C10. When several status records carry the requested name, \<^verbatim>\<open>getContainerStatus\<close>
  returns the state of the first of them in list order: the records after it, matching
  or not, have no influence.
\<close>

theorem getContainerStatus_first_match:
  assumes "ContainerStatuses (Status pod) = pre @ s # post"
    and "\<forall>x \<in> set pre. cs_Name x \<noteq> containerName"
    and "cs_Name s = containerName"
  shows "getContainerStatus pod containerName = cs_State s"
  unfolding getContainerStatus_def assms(1)
  using assms(2,3) by (rule getContainerStatus_loop_first)

theorem getContainerStatus_first_match_witness:
  "getContainerStatus
     (app_1 [status_of ''pool'' running_state,
             status_of ''main'' running_state,
             status_of ''main'' (terminated_state ''Completed'' 0)]) ''main'' = running_state"
proof -
  have "getContainerStatus
     (app_1 [status_of ''pool'' running_state,
             status_of ''main'' running_state,
             status_of ''main'' (terminated_state ''Completed'' 0)]) ''main''
     = cs_State (status_of ''main'' running_state)"
    by (rule getContainerStatus_first_match
          [where pre = "[status_of ''pool'' running_state]"
             and post = "[status_of ''main'' (terminated_state ''Completed'' 0)]"])
       (simp_all add: app_1_def status_of_def)
  then show ?thesis by (simp add: status_of_def)
qed

lemma getState_erase: "getState (erase_ExitCode s) = getState s"
  by (simp add: getState_def erase_ExitCode_def)

lemma getStateReason_erase: "getStateReason (erase_ExitCode s) = getStateReason s"
  by (simp add: getStateReason_def erase_ExitCode_def split: option.splits)

lemma loop_erase:
  "getContainerStatus_loop (map erase_ExitCode_status sts) n
     = erase_ExitCode (getContainerStatus_loop sts n)"
  by (induction sts) (simp_all add: erase_ExitCode_status_def erase_ExitCode_def ContainerState_zero_def)

lemma getContainerStatus_erase:
  "getContainerStatus (erase_ExitCodes pod) n = erase_ExitCode (getContainerStatus pod n)"
  by (simp add: getContainerStatus_def erase_ExitCodes_def loop_erase)

lemma UpdateFunc_erase:
  "UpdateFunc \<lparr>ObjectOld = PodObject (erase_ExitCodes old),
               ObjectNew = PodObject (erase_ExitCodes new)\<rparr>
   = UpdateFunc \<lparr>ObjectOld = PodObject old, ObjectNew = PodObject new\<rparr>"
  by (simp add: UpdateFunc_def Let_def getContainerStatus_erase getState_erase getStateReason_erase)

text \<open>
  C9. The event filter does not depend on exit codes: two pairs of pods that agree on
  everything but the \<^verbatim>\<open>ExitCode\<close> fields of their container statuses get the same
  answer.
\<close>

theorem UpdateFunc_ignores_ExitCode:
  assumes "erase_ExitCodes old = erase_ExitCodes old'"
    and "erase_ExitCodes new = erase_ExitCodes new'"
  shows "UpdateFunc \<lparr>ObjectOld = PodObject old, ObjectNew = PodObject new\<rparr>
         = UpdateFunc \<lparr>ObjectOld = PodObject old', ObjectNew = PodObject new'\<rparr>"
proof -
  have "UpdateFunc \<lparr>ObjectOld = PodObject old, ObjectNew = PodObject new\<rparr>
        = UpdateFunc \<lparr>ObjectOld = PodObject (erase_ExitCodes old),
               ObjectNew = PodObject (erase_ExitCodes new)\<rparr>"
    by (simp only: UpdateFunc_erase)
  also have "\<dots> = UpdateFunc \<lparr>ObjectOld = PodObject (erase_ExitCodes old'),
               ObjectNew = PodObject (erase_ExitCodes new')\<rparr>"
    by (simp only: assms)
  also have "\<dots> = UpdateFunc \<lparr>ObjectOld = PodObject old', ObjectNew = PodObject new'\<rparr>"
    by (simp only: UpdateFunc_erase)
  finally show ?thesis .
qed

theorem UpdateFunc_ignores_ExitCode_witness:
  "erase_ExitCodes main_completed
     = erase_ExitCodes (app_1 [status_of ''main'' (terminated_state ''Completed'' 137),
                               status_of ''pool'' running_state])
   \<and> main_completed \<noteq> app_1 [status_of ''main'' (terminated_state ''Completed'' 137),
                               status_of ''pool'' running_state]
   \<and> UpdateFunc \<lparr>ObjectOld = PodObject (app_1 [status_of ''main'' running_state]),
                 ObjectNew = PodObject (app_1 [status_of ''main'' (terminated_state ''Completed'' 137),
                               status_of ''pool'' running_state])\<rparr> = Inr True
   \<and> UpdateFunc \<lparr>ObjectOld = PodObject (app_1 [status_of ''main'' running_state]),
                 ObjectNew = PodObject main_completed\<rparr> = Inr True"
proof -
  have h: "erase_ExitCodes main_completed
     = erase_ExitCodes (app_1 [status_of ''main'' (terminated_state ''Completed'' 137),
                               status_of ''pool'' running_state])"
    by (simp add: erase_ExitCodes_def erase_ExitCode_status_def erase_ExitCode_def sample_defs)
  have d: "main_completed \<noteq> app_1 [status_of ''main'' (terminated_state ''Completed'' 137),
                               status_of ''pool'' running_state]"
    by (simp add: sample_defs)
  have t: "UpdateFunc \<lparr>ObjectOld = PodObject (app_1 [status_of ''main'' running_state]),
                 ObjectNew = PodObject main_completed\<rparr> = Inr True"
    by (simp add: UpdateFunc_def Let_def getContainerStatus_def getState_def getStateReason_def
        sample_defs)
  show ?thesis
    using h d t UpdateFunc_ignores_ExitCode [OF refl h, of "app_1 [status_of ''main'' running_state]"]
    by simp
qed

section \<open>Properties of the two variants of Reconcile\<close>

subsection \<open>The copy and the injection\<close>

lemma copied_append_value:
  assumes "pod < length h"
  shows "copied_append h pod = Inr (length h, h @ [with_kill_container (h ! pod)])"
  using assms
  by (simp add: copied_append_def DeepCopy_def Let_def with_kill_container_def nth_append)

lemma injectEphemeralContainer_value:
  assumes "pod < length h"
  shows "injectEphemeralContainer lib r h pod =
     Inr (case snd (Marshal lib (with_kill_container (h ! pod))) of
            Some e \<Rightarrow>
              ([], Some (Errorf (''error creating JSON for debug container: '' @ Error e)))
          | None \<Rightarrow>
              (case CreateTwoWayMergePatch lib (fst (Marshal lib (h ! pod)))
                      (fst (Marshal lib (with_kill_container (h ! pod)))) (h ! pod) of
                 (patch, Some e) \<Rightarrow>
                   ([], Some (Errorf (''error creating patch to add debug container: ''
                                       @ Error e)))
               | (patch, None) \<Rightarrow>
                   (case PatchEphemeralContainers r (h ! pod) patch of
                      Some e \<Rightarrow>
                        if IsNotFound lib e
                        then ([], Some (Errorf (''pod not found: ''
                                 @ om_Namespace (ObjectMeta (h ! pod)) @ ''/''
                                 @ om_Name (ObjectMeta (h ! pod)))))
                        else ([], Some e)
                    | None \<Rightarrow>
                        ([Info ''Ephemeral container injected successfully''], None))))"
proof -
  obtain podJS e0 where m0: "Marshal lib (h ! pod) = (podJS, e0)"
    by (cases "Marshal lib (h ! pod)")
  obtain debugJS err where m1: "Marshal lib (with_kill_container (h ! pod)) = (debugJS, err)"
    by (cases "Marshal lib (with_kill_container (h ! pod))")
  have nth: "(h @ [with_kill_container (h ! pod)]) ! pod = h ! pod"
    using assms by (simp add: nth_append)
  show ?thesis
    using assms
    by (auto simp: injectEphemeralContainer_def copied_append_value nth m0 m1
        split: option.splits prod.splits)
qed

lemma injectEphemeralContainer_nil:
  assumes "\<not> pod < length h"
  shows "injectEphemeralContainer lib r h pod = Inl NilPointerDereference"
  using assms
  by (simp add: injectEphemeralContainer_def copied_append_def DeepCopy_def split: prod.splits)

lemma Reconcile_inject_no_panic: "\<exists>res. Reconcile_inject lib r req = Inr res"
  by (simp add: Reconcile_inject_def Let_def injectEphemeralContainer_value
      split: sum.splits option.splits prod.splits)

text \<open>
  C4. For every pod object, \<^verbatim>\<open>injectEphemeralContainer\<close> builds its copy without a panic,
  and the copy is a new object, distinct from the one it was given, whose value is
  that of the pod with \<^verbatim>\<open>ec\<close> appended to \<^verbatim>\<open>Spec.EphemeralContainers\<close>: the former
  ephemeral containers come first and in their order, the list is one longer, the
  containers and all other fields are those of the pod. The appended entry is named
  \<^verbatim>\<open>essential-container-sidecar\<close> and runs \<^verbatim>\<open>/bin/sh -c "kill -INT 1"\<close>. The object
  given, like every object that was in the store, holds the value it held before.
\<close>

theorem copied_append_frame:
  assumes "pod < length h"
  shows "\<exists>copied h'. copied_append h pod = Inr (copied, h')
     \<and> copied = length h \<and> copied \<noteq> pod
     \<and> length h' = Suc (length h) \<and> take (length h) h' = h
     \<and> h' ! pod = h ! pod
     \<and> h' ! copied = (h ! pod)\<lparr>Spec := (Spec (h ! pod))\<lparr>EphemeralContainers :=
                        EphemeralContainers (Spec (h ! pod)) @ [ec]\<rparr>\<rparr>
     \<and> ObjectMeta (h' ! copied) = ObjectMeta (h ! pod)
     \<and> Status (h' ! copied) = Status (h ! pod)
     \<and> Containers (Spec (h' ! copied)) = Containers (Spec (h ! pod))
     \<and> EphemeralContainers (Spec (h' ! copied))
         = EphemeralContainers (Spec (h ! pod)) @ [ec]
     \<and> length (EphemeralContainers (Spec (h' ! copied)))
         = length (EphemeralContainers (Spec (h ! pod))) + 1
     \<and> take (length (EphemeralContainers (Spec (h ! pod))))
           (EphemeralContainers (Spec (h' ! copied)))
         = EphemeralContainers (Spec (h ! pod))
     \<and> last (EphemeralContainers (Spec (h' ! copied))) = ec
     \<and> ec_Name (EphemeralContainerCommon ec) = ''essential-container-sidecar''
     \<and> ec_Command (EphemeralContainerCommon ec) = [''/bin/sh'']
     \<and> ec_Args (EphemeralContainerCommon ec) = [''-c'', ''kill -INT 1'']"
proof -
  have "copied_append h pod = Inr (length h, h @ [with_kill_container (h ! pod)])"
    using assms by (rule copied_append_value)
  moreover have "length h \<noteq> pod"
    using assms by simp
  moreover have "(h @ [with_kill_container (h ! pod)]) ! pod = h ! pod"
    using assms by (simp add: nth_append)
  moreover have "(h @ [with_kill_container (h ! pod)]) ! length h
      = (h ! pod)\<lparr>Spec := (Spec (h ! pod))\<lparr>EphemeralContainers :=
                        EphemeralContainers (Spec (h ! pod)) @ [ec]\<rparr>\<rparr>"
    by (simp add: with_kill_container_def)
  moreover have "ec_Name (EphemeralContainerCommon ec) = ''essential-container-sidecar''"
    "ec_Command (EphemeralContainerCommon ec) = [''/bin/sh'']"
    "ec_Args (EphemeralContainerCommon ec) = [''-c'', ''kill -INT 1'']"
    by (simp_all add: ec_def)
  ultimately show ?thesis
    by simp
qed

text \<open>
  On a store of two pods, the second of which already has the ephemeral container
  \<^verbatim>\<open>debugger\<close>: the copy is the third object, the two pods are as they were, and the
  copy has \<^verbatim>\<open>debugger\<close> followed by the kill container.
\<close>

theorem copied_append_frame_witness:
  "\<exists>h'. copied_append [main_completed, app_1_debugged] 1 = Inr (2, h')
     \<and> take 2 h' = [main_completed, app_1_debugged]
     \<and> EphemeralContainers (Spec (h' ! 2)) = [debugger, ec]
     \<and> map (\<lambda>c. ec_Name (EphemeralContainerCommon c)) (EphemeralContainers (Spec (h' ! 2)))
         = [''debugger'', ''essential-container-sidecar'']
     \<and> map c_Name (Containers (Spec (h' ! 2))) = [''main'', ''pool'']
     \<and> ObjectMeta (h' ! 2) = ObjectMeta app_1_debugged
     \<and> Status (h' ! 2) = Status app_1_debugged"
proof -
  let ?h = "[main_completed, app_1_debugged]"
  have l: "1 < length ?h" by simp
  from copied_append_frame [OF l] obtain copied h' where
    r: "copied_append ?h 1 = Inr (copied, h')"
    and c: "copied = length ?h"
    and t: "take (length ?h) h' = ?h"
    and o: "ObjectMeta (h' ! copied) = ObjectMeta (?h ! 1)"
    and s: "Status (h' ! copied) = Status (?h ! 1)"
    and k: "Containers (Spec (h' ! copied)) = Containers (Spec (?h ! 1))"
    and e: "EphemeralContainers (Spec (h' ! copied))
              = EphemeralContainers (Spec (?h ! 1)) @ [ec]"
    by blast
  have c2: "copied = 2"
    using c by simp
  have "EphemeralContainers (Spec (h' ! 2)) = [debugger, ec]"
    using e by (simp add: c2 app_1_debugged_def)
  moreover have "map c_Name (Containers (Spec (h' ! 2))) = [''main'', ''pool'']"
    using k by (simp add: c2 app_1_debugged_def main_completed_def app_1_def)
  moreover have "ObjectMeta (h' ! 2) = ObjectMeta app_1_debugged"
    "Status (h' ! 2) = Status app_1_debugged"
    using o s by (simp_all add: c2)
  moreover have "take 2 h' = ?h"
    using t by (simp add: numeral_2_eq_2)
  moreover have "copied_append ?h 1 = Inr (2, h')"
    using r by (simp add: c2)
  ultimately show ?thesis
    by (simp add: debugger_def ec_def)
qed

text \<open>When \<^verbatim>\<open>json.Marshal\<close> fails on the modified copy, its error is returned.\<close>

lemma injectEphemeralContainer_Marshal_copied_fails:
  assumes "pod < length h"
    and "snd (Marshal lib (with_kill_container (h ! pod))) = Some e"
  shows "injectEphemeralContainer lib r h pod =
           Inr ([], Some (Errorf (''error creating JSON for debug container: '' @ Error e)))"
  using assms by (simp add: injectEphemeralContainer_value)

text \<open>
  C8, as the code has it. Every serialization failure inside
  \<^verbatim>\<open>injectEphemeralContainer\<close> is surfaced as an error of the function and not ignored.
  A failure of \<^verbatim>\<open>json.Marshal\<close> on the copy is tested and returned, with the message
  of the failure. The error of \<^verbatim>\<open>json.Marshal\<close> on the original is not tested where it
  arises; the copy holds every value of the original, so \<^verbatim>\<open>json.Marshal\<close> fails on it
  as well (the third hypothesis), and the failure is returned from there. \<^verbatim>\<open>Reconcile\<close>
  logs the error and returns it to its caller with the zero result, as it does every
  error of the injection.
\<close>

theorem serialization_failure_surfaced:
  assumes "pod < length h"
    and "snd (Marshal lib (h ! pod)) \<noteq> None
         \<or> snd (Marshal lib (with_kill_container (h ! pod))) \<noteq> None"
    and "snd (Marshal lib (h ! pod)) \<noteq> None
         \<Longrightarrow> snd (Marshal lib (with_kill_container (h ! pod))) \<noteq> None"
  shows "\<exists>e. snd (Marshal lib (with_kill_container (h ! pod))) = Some e
     \<and> injectEphemeralContainer lib r h pod =
         Inr ([], Some (Errorf (''error creating JSON for debug container: '' @ Error e)))
     \<and> (Get r req = Inr (h ! pod) \<longrightarrow>
          (\<exists>line. Reconcile_inject lib r req =
             Inr ([Printf line,
                   LogError (Errorf (''error creating JSON for debug container: '' @ Error e))
                     ''Failed to inject ephemeral container into pod''],
                  Result_zero,
                  Some (Errorf (''error creating JSON for debug container: '' @ Error e)))))"
proof -
  from assms(2,3) obtain e where e: "snd (Marshal lib (with_kill_container (h ! pod))) = Some e"
    by blast
  have i: "injectEphemeralContainer lib r h pod =
         Inr ([], Some (Errorf (''error creating JSON for debug container: '' @ Error e)))"
    using assms(1) e by (simp add: injectEphemeralContainer_value)
  have "injectEphemeralContainer lib r [h ! pod] 0 =
         Inr ([], Some (Errorf (''error creating JSON for debug container: '' @ Error e)))"
    using e by (simp add: injectEphemeralContainer_value)
  then have "Get r req = Inr (h ! pod) \<longrightarrow>
          (\<exists>line. Reconcile_inject lib r req =
             Inr ([Printf line,
                   LogError (Errorf (''error creating JSON for debug container: '' @ Error e))
                     ''Failed to inject ephemeral container into pod''],
                  Result_zero,
                  Some (Errorf (''error creating JSON for debug container: '' @ Error e))))"
    by (simp add: Reconcile_inject_def Let_def)
  with e i show ?thesis
    by blast
qed

theorem serialization_failure_surfaced_witness:
  "\<exists>line. injectEphemeralContainer strict_lib client_malformed [app_1_malformed] 0
       = Inr ([], Some (Errorf (''error creating JSON for debug container: ''
                                   @ Error marshal_error)))
     \<and> Reconcile_inject strict_lib client_malformed app_1_req
       = Inr ([Printf line,
               LogError (Errorf (''error creating JSON for debug container: ''
                                   @ Error marshal_error))
                 ''Failed to inject ephemeral container into pod''],
              Result_zero,
              Some (Errorf (''error creating JSON for debug container: ''
                              @ Error marshal_error)))"
proof -
  have l: "0 < length [app_1_malformed]" by simp
  have m0: "snd (Marshal strict_lib ([app_1_malformed] ! 0)) = Some marshal_error"
    by (simp add: strict_lib_def strict_Marshal_def app_1_malformed_def)
  have m1: "snd (Marshal strict_lib (with_kill_container ([app_1_malformed] ! 0)))
              = Some marshal_error"
    by (simp add: strict_lib_def strict_Marshal_def app_1_malformed_def
        with_kill_container_def)
  have f: "snd (Marshal strict_lib ([app_1_malformed] ! 0)) \<noteq> None
         \<or> snd (Marshal strict_lib (with_kill_container ([app_1_malformed] ! 0))) \<noteq> None"
    using m0 by simp
  have c: "snd (Marshal strict_lib ([app_1_malformed] ! 0)) \<noteq> None
         \<Longrightarrow> snd (Marshal strict_lib (with_kill_container ([app_1_malformed] ! 0))) \<noteq> None"
    using m1 by simp
  have g: "Get client_malformed app_1_req = Inr ([app_1_malformed] ! 0)"
    by (simp add: client_malformed_def client_ok_def)
  show ?thesis
    using serialization_failure_surfaced [OF l f c, of client_malformed app_1_req] m1 g
    by auto
qed

text \<open>
  C8 as stated calls the failure fatal, which the specification reads as not retried.
  On the pod that cannot be serialized, \<^verbatim>\<open>json.Marshal\<close> fails on the original and on the
  copy, and \<^verbatim>\<open>Reconcile\<close> hands the error to the controller loop with the zero result:
  the same answer as for a failed patch, which the loop takes as the request to run the
  reconciliation again.
\<close>

theorem Reconcile_inject_returns_Marshal_error:
  "snd (Marshal strict_lib app_1_malformed) = Some marshal_error
   \<and> snd (Marshal strict_lib (with_kill_container app_1_malformed)) = Some marshal_error
   \<and> Get client_malformed app_1_req = Inr app_1_malformed
   \<and> map_sum id snd (Reconcile_inject strict_lib client_malformed app_1_req)
       = Inr (Result_zero,
              Some (Errorf (''error creating JSON for debug container: ''
                              @ Error marshal_error)))
   \<and> map_sum id snd (Reconcile_inject sample_lib client_patch_gone app_1_req)
       = Inr (Result_zero, Some (Errorf ''pod not found: ns/app-1''))"
  by (simp add: Reconcile_inject_def Let_def injectEphemeralContainer_value
      strict_lib_def strict_Marshal_def app_1_malformed_def client_malformed_def
      client_patch_gone_def client_ok_def sample_lib_def sample_Marshal_def
      sample_IsNotFound_def not_found_error_def with_kill_container_def ec_def
      main_completed_def app_1_def)

subsection \<open>The variant that deletes the pod\<close>

text \<open>
  C2, as the code has it. When the read of the pod answers not-found, \<^verbatim>\<open>Reconcile\<close>
  logs \<^verbatim>\<open>Pod not found\<close> and returns the zero result with no error; the answer of the
  API server to a delete plays no part in it.
\<close>

theorem Reconcile_delete_not_found_on_read:
  assumes "Get r req = Inl err" and "IsNotFound lib err"
  shows "(\<exists>line. Reconcile_delete lib r req
                   = ([Printf line, Info ''Pod not found''], Result_zero, None))
         \<and> Reconcile_delete lib (r\<lparr>Delete := d\<rparr>) req = Reconcile_delete lib r req"
  using assms by (simp add: Reconcile_delete_def Let_def)

theorem Reconcile_delete_not_found_on_read_witness:
  "sample_IsNotFound not_found_error
   \<and> snd (Reconcile_delete sample_lib client_absent app_1_req) = (Result_zero, None)
   \<and> last (fst (Reconcile_delete sample_lib client_absent app_1_req)) = Info ''Pod not found''"
proof -
  have g: "Get client_absent app_1_req = Inl not_found_error"
    by (simp add: client_absent_def)
  have n: "IsNotFound sample_lib not_found_error"
    by (simp add: sample_lib_def sample_IsNotFound_def not_found_error_def)
  show ?thesis
    using n Reconcile_delete_not_found_on_read [OF g n, where d = "\<lambda>obj. None"]
    by (auto simp: sample_lib_def)
qed

text \<open>
  C2 as stated also covers a not-found answer to the delete call. There \<^verbatim>\<open>Reconcile\<close>
  logs \<^verbatim>\<open>Failed to delete Pod\<close> and returns the error: the pod was read, and was gone
  by the time of the delete.
\<close>

theorem Reconcile_delete_not_found_on_delete:
  "Get client_delete_gone app_1_req = Inr main_completed
   \<and> Delete client_delete_gone main_completed = Some not_found_error
   \<and> IsNotFound sample_lib not_found_error
   \<and> snd (Reconcile_delete sample_lib client_delete_gone app_1_req)
       = (Result_zero, Some not_found_error)
   \<and> last (fst (Reconcile_delete sample_lib client_delete_gone app_1_req))
       = LogError not_found_error ''Failed to delete Pod''"
  by (simp add: Reconcile_delete_def Let_def client_delete_gone_def client_ok_def
      sample_lib_def sample_IsNotFound_def not_found_error_def)

text \<open>Every error of the delete call is returned, of whatever kind.\<close>

lemma Reconcile_delete_error_on_delete:
  assumes "Get r req = Inr pod" and "Delete r pod = Some err"
  shows "\<exists>line. Reconcile_delete lib r req
           = ([Printf line, LogError err ''Failed to delete Pod''], Result_zero, Some err)"
  using assms by (simp add: Reconcile_delete_def Let_def)

subsection \<open>The variant that injects the kill container\<close>

text \<open>
  C3, as the code has it. When the patch is answered with a not-found error,
  \<^verbatim>\<open>injectEphemeralContainer\<close> reports it with an error of its own,
  \<^verbatim>\<open>pod not found: <namespace>/<name>\<close>, in place of the error of the API server, and
  \<^verbatim>\<open>Reconcile\<close> logs that error and returns it to its caller, with the zero result,
  as it does every error of the injection.
\<close>

theorem Reconcile_inject_not_found_on_patch:
  assumes "Get r req = Inr p"
    and "snd (Marshal lib (with_kill_container p)) = None"
    and "CreateTwoWayMergePatch lib (fst (Marshal lib p))
           (fst (Marshal lib (with_kill_container p))) p = (patch, None)"
    and "PatchEphemeralContainers r p patch = Some e"
    and "IsNotFound lib e"
  shows "\<exists>line. Reconcile_inject lib r req =
           Inr ([Printf line,
                 LogError (Errorf (''pod not found: '' @ om_Namespace (ObjectMeta p) @ ''/''
                                     @ om_Name (ObjectMeta p)))
                   ''Failed to inject ephemeral container into pod''],
                Result_zero,
                Some (Errorf (''pod not found: '' @ om_Namespace (ObjectMeta p) @ ''/''
                                @ om_Name (ObjectMeta p))))"
proof -
  have "injectEphemeralContainer lib r [p] 0 =
          Inr ([], Some (Errorf (''pod not found: '' @ om_Namespace (ObjectMeta p) @ ''/''
                                @ om_Name (ObjectMeta p))))"
    using assms(2-5) by (simp add: injectEphemeralContainer_value)
  then show ?thesis
    using assms(1) by (simp add: Reconcile_inject_def Let_def)
qed

theorem Reconcile_inject_not_found_on_patch_witness:
  "\<exists>line. Reconcile_inject sample_lib client_patch_gone app_1_req =
     Inr ([Printf line,
           LogError (Errorf ''pod not found: ns/app-1'')
             ''Failed to inject ephemeral container into pod''],
          Result_zero, Some (Errorf ''pod not found: ns/app-1''))"
proof -
  have g: "Get client_patch_gone app_1_req = Inr main_completed"
    by (simp add: client_patch_gone_def client_ok_def)
  have m: "snd (Marshal sample_lib (with_kill_container main_completed)) = None"
    by (simp add: sample_lib_def sample_Marshal_def)
  have c: "CreateTwoWayMergePatch sample_lib (fst (Marshal sample_lib main_completed))
           (fst (Marshal sample_lib (with_kill_container main_completed))) main_completed
           = ('' essential-container-sidecar'', None)"
    by (simp add: sample_lib_def sample_Marshal_def with_kill_container_def ec_def
        main_completed_def app_1_def)
  have p: "PatchEphemeralContainers client_patch_gone main_completed
             '' essential-container-sidecar'' = Some not_found_error"
    by (simp add: client_patch_gone_def client_ok_def)
  have n: "IsNotFound sample_lib not_found_error"
    by (simp add: sample_lib_def sample_IsNotFound_def not_found_error_def)
  show ?thesis
    using Reconcile_inject_not_found_on_patch [OF g m c p n]
    by (simp add: main_completed_def app_1_def)
qed

text \<open>
  C3 as stated has \<^verbatim>\<open>Reconcile\<close> return no error in that case. On the pod
  \<^verbatim>\<open>ns/app-1\<close>, gone by the time of the patch, it returns one.
\<close>

theorem Reconcile_inject_returns_error_on_patch_not_found:
  "Get client_patch_gone app_1_req = Inr main_completed
   \<and> PatchEphemeralContainers client_patch_gone main_completed
        '' essential-container-sidecar'' = Some not_found_error
   \<and> IsNotFound sample_lib not_found_error
   \<and> map_sum id (snd \<circ> snd) (Reconcile_inject sample_lib client_patch_gone app_1_req)
       = Inr (Some (Errorf ''pod not found: ns/app-1''))"
  by (simp add: Reconcile_inject_def Let_def injectEphemeralContainer_value
      client_patch_gone_def client_ok_def sample_lib_def sample_Marshal_def
      sample_IsNotFound_def not_found_error_def with_kill_container_def ec_def
      main_completed_def app_1_def)

end
